theory Spec2Isabelle
  imports Main "HOL-Library.Word"
begin

unbundle bit_operations_syntax

section \<open>Machine types and return codes\<close>

text \<open>
  The C++ sources use \<open>int\<close> (32-bit, signed), \<open>ssize_t\<close> (64-bit, signed),
  \<open>uint8_t\<close> octets and raw pointers. Integers are words; the signed comparisons of the
  source are the signed orderings \<open><s\<close> and \<open><=s\<close> on words. A pointer is an option:
  \<open>None\<close> is the null pointer, \<open>Some a\<close> points to \<open>a\<close>. A function pointer and a
  \<open>void *\<close> are addresses (naturals).
\<close>

type_synonym int32 = "32 word"
type_synonym ssize_t = "64 word"
type_synonym uint8_t = "8 word"
type_synonym uint16_t = "16 word"
type_synonym uint32_t = "32 word"
type_synonym void_ptr = "nat option"
type_synonym fn_ptr = "nat option"

text \<open>
  Modelled from the spec: the enumeration \<open>rtp_error_t\<close> is declared in util.hh, which
  is not among the sources. media_stream.cc and rtcp.hh name \<open>RTP_OK\<close>,
  \<open>RTP_GENERIC_ERROR\<close>, \<open>RTP_INVALID_VALUE\<close>, \<open>RTP_SEND_ERROR\<close> and
  \<open>RTP_MEMORY_ERROR\<close>; the remaining codes are those of the error taxonomy of the
  specification (section 7).
\<close>

datatype rtp_error_t =
    RTP_OK
  | RTP_GENERIC_ERROR
  | RTP_INVALID_VALUE
  | RTP_SEND_ERROR
  | RTP_RECV_ERROR
  | RTP_MEMORY_ERROR
  | RTP_PAYLOAD_TOO_BIG
  | RTP_TIMEOUT
  | RTP_AUTH_FAILURE
  | RTP_NOT_READY

section \<open>The socket, as media_stream.cc uses it\<close>

text \<open>
  socket.hh is not among the sources. media_stream.cc is a caller of \<open>kvz_rtp::socket\<close>:
  the socket is modelled by the trace of the calls made on it, and the return code of each
  call is the environment's, given by \<open>sock_results\<close> at the position of the call in the
  trace. The numeric constants are the ones of the Linux system headers; they only tag the
  calls.
\<close>

definition AF_INET :: int32 where "AF_INET = 2"
definition SOCK_DGRAM :: int32 where "SOCK_DGRAM = 2"
definition SOL_SOCKET :: int32 where "SOL_SOCKET = 1"
definition SO_REUSEADDR :: int32 where "SO_REUSEADDR = 2"
definition INADDR_ANY :: uint32_t where "INADDR_ANY = 0"

record sockaddr_in =
  sin_family :: int32
  sin_addr :: string
  sin_port :: int32

datatype 'd sock_call =
    Socket_init int32 int32 int32
  | Socket_setsockopt int32 int32 int32
  | Socket_bind int32 uint32_t int32
  | Socket_set_sockaddr sockaddr_in
  | Socket_sendto 'd

record 'd socket =
  sock_calls :: "'d sock_call list"
  sock_results :: "nat \<Rightarrow> rtp_error_t"

definition socket_call :: "'d sock_call \<Rightarrow> 'd socket \<Rightarrow> rtp_error_t \<times> 'd socket" where
  "socket_call c s = (sock_results s (length (sock_calls s)), s\<lparr>sock_calls := sock_calls s @ [c]\<rparr>)"

definition socket_init :: "int32 \<Rightarrow> int32 \<Rightarrow> int32 \<Rightarrow> 'd socket \<Rightarrow> rtp_error_t \<times> 'd socket" where
  "socket_init domain type proto s = socket_call (Socket_init domain type proto) s"

definition socket_bind :: "int32 \<Rightarrow> uint32_t \<Rightarrow> int32 \<Rightarrow> 'd socket \<Rightarrow> rtp_error_t \<times> 'd socket" where
  "socket_bind family host port s = socket_call (Socket_bind family host port) s"

definition socket_create_sockaddr :: "int32 \<Rightarrow> string \<Rightarrow> int32 \<Rightarrow> sockaddr_in" where
  "socket_create_sockaddr family host port = \<lparr>sin_family = family, sin_addr = host, sin_port = port\<rparr>"

definition socket_set_sockaddr :: "sockaddr_in \<Rightarrow> 'd socket \<Rightarrow> 'd socket" where
  "socket_set_sockaddr a s = snd (socket_call (Socket_set_sockaddr a) s)"

definition socket_sendto :: "'d \<Rightarrow> 'd socket \<Rightarrow> rtp_error_t \<times> 'd socket" where
  "socket_sendto d s = socket_call (Socket_sendto d) s"

text \<open>
  \<open>SO_REUSEADDR\<close> is enabled on a socket exactly when a \<open>setsockopt\<close> call on it has
  set that option to a non-zero value.
\<close>

fun enables_reuseaddr :: "'d sock_call \<Rightarrow> bool" where
  "enables_reuseaddr (Socket_setsockopt level optname v) =
     (level = SOL_SOCKET \<and> optname = SO_REUSEADDR \<and> v \<noteq> 0)"
| "enables_reuseaddr _ = False"

fun is_bind :: "'d sock_call \<Rightarrow> bool" where
  "is_bind (Socket_bind family host port) = True"
| "is_bind _ = False"

definition reuseaddr_enabled :: "'d socket \<Rightarrow> bool" where
  "reuseaddr_enabled s = (filter enables_reuseaddr (sock_calls s) \<noteq> [])"

section \<open>The context configuration\<close>

text \<open>
  \<open>ctx_config_\<close> is an \<open>rtp_ctx_conf_t\<close>: the flag word \<open>flags\<close> and the array
  \<open>ctx_values\<close>, indexed by the \<open>RCC_*\<close> enumerators. Its declaration and the
  enumerators \<open>RCC_LAST\<close> and \<open>RCE_LAST\<close> are in util.hh; the two bounds are parameters
  of the functions that use them.
\<close>

record rtp_ctx_conf_t =
  flags :: int32
  ctx_values :: "ssize_t list"

section \<open>The session's RTP context, the sender and the receiver\<close>

text \<open>
  Modelled from the spec: rtp.hh, sender.hh, receiver.hh, frame.hh and the payload
  formatters are not among the sources; media_stream.cc only creates the objects
  (\<open>new kvz_rtp::rtp(fmt_)\<close>, \<open>new kvz_rtp::sender(socket_, ctx_config_, fmt_, rtp_)\<close>,
  \<open>new kvz_rtp::receiver(socket_, ctx_config_, fmt_, rtp_)\<close>) and forwards calls to them.
  The definitions of this section follow sections 3, 4.1, 4.2 and 4.3 of the
  specification. The two payload disciplines of section 4.1 are the values of
  \<open>rtp_format_t\<close>.
\<close>

datatype rtp_format_t = RTP_FORMAT_OPAQUE | RTP_FORMAT_FRAGMENTING

text \<open>
  Modelled from the spec: the session state of section 3 (class \<open>kvz_rtp::rtp\<close>): the
  SSRC, the 16-bit sequence number, the 32-bit timestamp and the per-frame timestamp
  increment of the payload format.
\<close>

record rtp =
  rtp_ssrc :: uint32_t
  rtp_seq :: uint16_t
  rtp_ts :: uint32_t
  rtp_ts_inc :: uint32_t
  rtp_payload_type :: nat

text \<open>
  Modelled from the spec: an RTP packet (section 3) by its header fields and its payload.
  The payload is either a whole media frame or one fragment, prefixed by the
  fragment-unit header with its start flag, its end flag and the original unit type
  (section 4.1).
\<close>

datatype rtp_payload =
    Whole_unit "uint8_t list"
  | Fragment_unit bool bool uint8_t "uint8_t list"

record rtp_packet =
  pkt_marker :: bool
  pkt_payload_type :: nat
  pkt_seq :: uint16_t
  pkt_timestamp :: uint32_t
  pkt_ssrc :: uint32_t
  pkt_payload :: rtp_payload

text \<open>
  Modelled from the spec: the opaque formatter (section 4.1, item 1). One frame is one
  packet with the marker bit set when it fits in the MTU; an oversize frame is refused.
\<close>

definition opaque_format :: "nat \<Rightarrow> uint8_t list \<Rightarrow> rtp_error_t + (bool \<times> rtp_payload) list" where
  "opaque_format mtu frame =
     (if length frame \<le> mtu then Inr [(True, Whole_unit frame)] else Inl RTP_PAYLOAD_TOO_BIG)"

text \<open>
  Modelled from the spec: the fragmenting formatter (section 4.1, item 2). A frame longer
  than the fragment-payload ceiling is cut into consecutive chunks of \<open>ceiling\<close> octets
  (the last one may be shorter). The first fragment carries the start flag, the last one
  the end flag and the marker bit, the others neither. A ceiling of zero cannot cut a
  frame; the frame is then left in one piece.
\<close>

function chunks :: "nat \<Rightarrow> 'a list \<Rightarrow> 'a list list" where
  "chunks n xs = (if n = 0 \<or> length xs \<le> n then [xs] else take n xs # chunks n (drop n xs))"
  by pat_completeness auto
termination
  by (relation "measure (\<lambda>(n, xs). length xs)") auto

definition unit_type :: "uint8_t list \<Rightarrow> uint8_t" where
  "unit_type frame = (case frame of [] \<Rightarrow> 0 | b # _ \<Rightarrow> b AND 31)"

fun fragments :: "uint8_t \<Rightarrow> bool \<Rightarrow> uint8_t list list \<Rightarrow> (bool \<times> rtp_payload) list" where
  "fragments t first [] = []"
| "fragments t first [c] = [(True, Fragment_unit first True t c)]"
| "fragments t first (c # cs) = (False, Fragment_unit first False t c) # fragments t False cs"

definition fragmenting_format :: "nat \<Rightarrow> uint8_t list \<Rightarrow> rtp_error_t + (bool \<times> rtp_payload) list" where
  "fragmenting_format ceiling frame =
     (if length frame \<le> ceiling then Inr [(True, Whole_unit frame)]
      else Inr (fragments (unit_type frame) True (chunks ceiling frame)))"

text \<open>
  Modelled from the spec: the sender (section 4.2). It holds the MTU of the opaque
  formatter, the fragment-payload ceiling (default 1400) and the deallocation hook;
  \<open>dealloc_calls\<close> is the trace of the hook's invocations.
\<close>

record sender =
  mtu_payload :: nat
  frag_ceiling :: nat
  dealloc_hook :: fn_ptr
  dealloc_calls :: "nat list"

definition format_frame :: "rtp_format_t \<Rightarrow> sender \<Rightarrow> uint8_t list \<Rightarrow> rtp_error_t + (bool \<times> rtp_payload) list" where
  "format_frame fmt sndr frame =
     (case fmt of
        RTP_FORMAT_OPAQUE \<Rightarrow> opaque_format (mtu_payload sndr) frame
      | RTP_FORMAT_FRAGMENTING \<Rightarrow> fragmenting_format (frag_ceiling sndr) frame)"

definition build_packet :: "bool \<Rightarrow> uint32_t \<Rightarrow> rtp \<Rightarrow> rtp_payload \<Rightarrow> rtp_packet" where
  "build_packet m ts r p =
     \<lparr>pkt_marker = m, pkt_payload_type = rtp_payload_type r, pkt_seq = rtp_seq r,
      pkt_timestamp = ts, pkt_ssrc = rtp_ssrc r, pkt_payload = p\<rparr>"

text \<open>
  Modelled from the spec: the send path of the sender (section 4.2; sender.cc is not among
  the sources). Each produced datagram is handed to \<open>Socket.send\<close>; the sequence number
  is post-incremented per datagram; a socket failure is propagated as \<open>RTP_SEND_ERROR\<close>
  and ends the frame.
\<close>

fun send_datagrams ::
  "(bool \<times> rtp_payload) list \<Rightarrow> uint32_t \<Rightarrow> rtp \<Rightarrow> rtp_packet socket
     \<Rightarrow> rtp_error_t \<times> rtp \<times> rtp_packet socket" where
  "send_datagrams [] ts r s = (RTP_OK, r, s)"
| "send_datagrams (p # ps) ts r s =
     (let pkt = build_packet (fst p) ts r (snd p);
          r' = r\<lparr>rtp_seq := rtp_seq r + 1\<rparr>;
          sent = socket_sendto pkt s
      in if fst sent = RTP_OK then send_datagrams ps ts r' (snd sent)
         else (RTP_SEND_ERROR, r', snd sent))"

text \<open>
  Modelled from the spec: \<open>sender::push_frame(bytes, len, flags)\<close> (section 4.2; the
  sender is not among the sources). \<open>RTP_INVALID_VALUE\<close> for a null pointer or a zero
  length; otherwise the frame goes to the formatter of the payload format and its
  datagrams to the socket, all under the frame's timestamp, which then advances by the
  per-frame increment. The frame queue of section 4.2 keeps the order of the calls, so the
  datagrams of a call are sent at the call. (Which bit of \<open>flags\<close> overrides the
  timestamp is not specified; the argument is carried and not interpreted.)
\<close>

definition sender_push_frame ::
  "rtp_format_t \<Rightarrow> uint8_t list option \<Rightarrow> nat \<Rightarrow> int32 \<Rightarrow> sender \<Rightarrow> rtp \<Rightarrow> rtp_packet socket
     \<Rightarrow> rtp_error_t \<times> rtp \<times> rtp_packet socket" where
  "sender_push_frame fmt data data_len fl sndr r s =
     (case data of
        None \<Rightarrow> (RTP_INVALID_VALUE, r, s)
      | Some bytes \<Rightarrow>
          if data_len = 0 then (RTP_INVALID_VALUE, r, s)
          else (case format_frame fmt sndr (take data_len bytes) of
                  Inl e \<Rightarrow> (e, r, s)
                | Inr ps \<Rightarrow>
                    (let res = send_datagrams ps (rtp_ts r) r s
                     in (fst res, (fst (snd res))\<lparr>rtp_ts := rtp_ts r + rtp_ts_inc r\<rparr>, snd (snd res)))))"

text \<open>
  Modelled from the spec: the owning overload of \<open>sender::push_frame\<close> and
  \<open>sender::install_dealloc_hook\<close> (section 4.2). The owning overload sends the frame in
  the same way, and the deallocation hook (if installed) is invoked after the last
  fragment has left the socket; \<open>install_dealloc_hook\<close> registers the single callback.
\<close>

definition sender_release :: "rtp_error_t \<Rightarrow> sender \<Rightarrow> sender" where
  "sender_release ret sndr =
     (case dealloc_hook sndr of
        None \<Rightarrow> sndr
      | Some h \<Rightarrow> if ret = RTP_OK then sndr\<lparr>dealloc_calls := dealloc_calls sndr @ [h]\<rparr> else sndr)"

definition install_dealloc_hook :: "fn_ptr \<Rightarrow> sender \<Rightarrow> sender" where
  "install_dealloc_hook hook sndr = sndr\<lparr>dealloc_hook := hook\<rparr>"

text \<open>
  Modelled from the spec: the receiver (section 4.3). Completed frames go to a bounded
  ring for \<open>pull_frame\<close> (an overflow drops the oldest frame and counts it) or, once a
  hook is installed, synchronously to the hook; \<open>hook_calls\<close> is the trace of the hook's
  invocations (hook, context argument, frame).
\<close>

record rtp_frame =
  frame_timestamp :: uint32_t
  frame_payload :: "uint8_t list"

record receiver =
  recv_hook_arg :: void_ptr
  recv_hook :: fn_ptr
  frames :: "rtp_frame list"
  max_frames :: nat
  dropped_frames :: nat
  recv_active :: bool
  hook_calls :: "(nat \<times> void_ptr \<times> rtp_frame) list"

definition install_recv_hook :: "void_ptr \<Rightarrow> fn_ptr \<Rightarrow> receiver \<Rightarrow> receiver" where
  "install_recv_hook arg hook r = r\<lparr>recv_hook_arg := arg, recv_hook := hook\<rparr>"

definition return_frame :: "rtp_frame \<Rightarrow> receiver \<Rightarrow> receiver" where
  "return_frame f r =
     (case recv_hook r of
        Some h \<Rightarrow> r\<lparr>hook_calls := hook_calls r @ [(h, recv_hook_arg r, f)]\<rparr>
      | None \<Rightarrow>
          if length (frames r) < max_frames r then r\<lparr>frames := frames r @ [f]\<rparr>
          else r\<lparr>frames := drop 1 (frames r) @ [f], dropped_frames := dropped_frames r + 1\<rparr>)"

text \<open>
  Modelled from the spec: \<open>receiver::pull_frame\<close> (section 4.3; the receiver is not
  among the sources). It blocks until a frame is complete: a call that does not return is
  the value \<open>None\<close>; a call that returns gives the frame pointer (\<open>None\<close> for null) and the
  receiver. With a hook installed it returns null immediately; after shutdown it returns
  null.
\<close>

definition receiver_pull_frame :: "receiver \<Rightarrow> (rtp_frame option \<times> receiver) option" where
  "receiver_pull_frame r =
     (if recv_hook r \<noteq> None then Some (None, r)
      else if \<not> recv_active r then Some (None, r)
      else (case frames r of
              [] \<Rightarrow> None
            | f # fs \<Rightarrow> Some (Some f, r\<lparr>frames := fs\<rparr>)))"

section \<open>media_stream\<close>

text \<open>
  The members the constructor of \<open>kvz_rtp::media_stream\<close> sets, with the socket and the
  outgoing address. A C++ member \<open>name_\<close> is the field \<open>name_'\<close>.
\<close>

record media_stream =
  fmt_' :: rtp_format_t
  addr_' :: string
  flags_' :: int32
  src_port_' :: int32
  dst_port_' :: int32
  socket_' :: "rtp_packet socket"
  addr_out_' :: sockaddr_in
  ctx_config_' :: rtp_ctx_conf_t
  media_config_' :: void_ptr

text \<open>
  \<open>init()\<close> allocates \<open>rtp_\<close>, \<open>sender_\<close> and \<open>receiver_\<close>; before it the three
  pointers are not initialised. A stream on which \<open>init()\<close> has returned \<open>RTP_OK\<close> is
  a \<open>media_stream_op\<close>: the operations that dereference the pointers take one.
\<close>

record media_stream_op = media_stream +
  rtp_' :: rtp
  sender_' :: sender
  receiver_' :: receiver

text \<open>
  \<open>init_connection\<close>: create the socket, bind it to the source port, set the outgoing
  address. The \<open>setsockopt(SOL_SOCKET, SO_REUSEADDR)\<close> call between \<open>init\<close> and
  \<open>bind\<close> stands inside \<open>#if 0 ... #endif\<close>: the preprocessor removes it, so it is no
  step of the function.
\<close>

definition init_connection :: "'a media_stream_scheme \<Rightarrow> rtp_error_t \<times> 'a media_stream_scheme" where
  "init_connection ms =
     (let r1 = socket_init AF_INET SOCK_DGRAM 0 (socket_' ms);
          ms1 = ms\<lparr>socket_' := snd r1\<rparr>
      in if fst r1 \<noteq> RTP_OK then (fst r1, ms1)
         else
           (let r2 = socket_bind AF_INET INADDR_ANY (src_port_' ms1) (socket_' ms1);
                ms2 = ms1\<lparr>socket_' := snd r2\<rparr>
            in if fst r2 \<noteq> RTP_OK then (fst r2, ms2)
               else
                 (let ms3 = ms2\<lparr>addr_out_' := socket_create_sockaddr AF_INET (addr_' ms2) (dst_port_' ms2)\<rparr>;
                      ms4 = ms3\<lparr>socket_' := socket_set_sockaddr (addr_out_' ms3) (socket_' ms3)\<rparr>
                  in (fst r2, ms4))))"

text \<open>
  \<open>push_frame\<close> (both overloads), \<open>pull_frame\<close>, \<open>install_receive_hook\<close>,
  \<open>install_deallocation_hook\<close>, \<open>set_media_config\<close> and \<open>get_media_config\<close> as in
  media_stream.cc. The sender and the receiver were constructed with references to
  \<open>socket_\<close>, \<open>ctx_config_\<close> and \<open>rtp_\<close>: a call forwarded to them acts on these
  members of the stream. The overload of \<open>push_frame\<close> that takes a \<open>std::unique_ptr\<close> is
  \<open>push_frame_owned\<close>. A null \<open>hook\<close> is \<open>None\<close>, so \<open>!hook\<close> is \<open>hook = None\<close>.
\<close>

definition push_frame ::
  "uint8_t list option \<Rightarrow> nat \<Rightarrow> int32 \<Rightarrow> media_stream_op \<Rightarrow> rtp_error_t \<times> media_stream_op" where
  "push_frame data data_len fl ms =
     (let res = sender_push_frame (fmt_' ms) data data_len fl (sender_' ms) (rtp_' ms) (socket_' ms)
      in (fst res, ms\<lparr>rtp_' := fst (snd res), socket_' := snd (snd res)\<rparr>))"

definition push_frame_owned ::
  "uint8_t list option \<Rightarrow> nat \<Rightarrow> int32 \<Rightarrow> media_stream_op \<Rightarrow> rtp_error_t \<times> media_stream_op" where
  "push_frame_owned data data_len fl ms =
     (let res = sender_push_frame (fmt_' ms) data data_len fl (sender_' ms) (rtp_' ms) (socket_' ms)
      in (fst res, ms\<lparr>rtp_' := fst (snd res), socket_' := snd (snd res),
                       sender_' := sender_release (fst res) (sender_' ms)\<rparr>))"

definition pull_frame :: "media_stream_op \<Rightarrow> (rtp_frame option \<times> media_stream_op) option" where
  "pull_frame ms =
     (case receiver_pull_frame (receiver_' ms) of
        None \<Rightarrow> None
      | Some res \<Rightarrow> Some (fst res, ms\<lparr>receiver_' := snd res\<rparr>))"

definition install_receive_hook :: "void_ptr \<Rightarrow> fn_ptr \<Rightarrow> media_stream_op \<Rightarrow> rtp_error_t \<times> media_stream_op" where
  "install_receive_hook arg hook ms =
     (if hook = None then (RTP_INVALID_VALUE, ms)
      else (RTP_OK, ms\<lparr>receiver_' := install_recv_hook arg hook (receiver_' ms)\<rparr>))"

definition install_deallocation_hook :: "fn_ptr \<Rightarrow> media_stream_op \<Rightarrow> rtp_error_t \<times> media_stream_op" where
  "install_deallocation_hook hook ms =
     (if hook = None then (RTP_INVALID_VALUE, ms)
      else (RTP_OK, ms\<lparr>sender_' := install_dealloc_hook hook (sender_' ms)\<rparr>))"

definition set_media_config :: "void_ptr \<Rightarrow> 'a media_stream_scheme \<Rightarrow> 'a media_stream_scheme" where
  "set_media_config config ms = ms\<lparr>media_config_' := config\<rparr>"

definition get_media_config :: "'a media_stream_scheme \<Rightarrow> void_ptr" where
  "get_media_config ms = media_config_' ms"

text \<open>
  The two overloads of \<open>configure_ctx\<close>: \<open>configure_ctx(int flag, ssize_t value)\<close> is
  \<open>configure_ctx\<close>, \<open>configure_ctx(int flag)\<close> is \<open>configure_ctx_flag\<close>. The first
  argument of each is the bound of util.hh (\<open>RCC_LAST\<close>, \<open>RCE_LAST\<close>).
\<close>

definition configure_ctx ::
  "int32 \<Rightarrow> int32 \<Rightarrow> ssize_t \<Rightarrow> 'a media_stream_scheme \<Rightarrow> rtp_error_t \<times> 'a media_stream_scheme" where
  "configure_ctx RCC_LAST flag v ms =
     (if flag <s 0 \<or> RCC_LAST <=s flag \<or> v <s 0 then (RTP_INVALID_VALUE, ms)
      else (RTP_OK, ms\<lparr>ctx_config_' :=
              (ctx_config_' ms)\<lparr>ctx_values := (ctx_values (ctx_config_' ms))[unat flag := v]\<rparr>\<rparr>))"

definition configure_ctx_flag ::
  "int32 \<Rightarrow> int32 \<Rightarrow> 'a media_stream_scheme \<Rightarrow> rtp_error_t \<times> 'a media_stream_scheme" where
  "configure_ctx_flag RCE_LAST flag ms =
     (if flag <s 0 \<or> RCE_LAST <=s flag then (RTP_INVALID_VALUE, ms)
      else (RTP_OK, ms\<lparr>ctx_config_' := (ctx_config_' ms)\<lparr>flags := flags (ctx_config_' ms) OR flag\<rparr>\<rparr>))"

subsection \<open>Runs of a stream\<close>

text \<open>
  A sequence of \<open>push_frame\<close> calls (of either overload) on one stream, and the
  datagrams a socket was handed, in order.
\<close>

datatype push_call =
    Push "uint8_t list option" nat int32
  | Push_owned "uint8_t list option" nat int32

fun push_frames :: "push_call list \<Rightarrow> media_stream_op \<Rightarrow> rtp_error_t list \<times> media_stream_op" where
  "push_frames [] ms = ([], ms)"
| "push_frames (Push d n fl # cs) ms =
     (let r = push_frame d n fl ms; rest = push_frames cs (snd r) in (fst r # fst rest, snd rest))"
| "push_frames (Push_owned d n fl # cs) ms =
     (let r = push_frame_owned d n fl ms; rest = push_frames cs (snd r) in (fst r # fst rest, snd rest))"

fun datagram_of :: "'d sock_call \<Rightarrow> 'd list" where
  "datagram_of (Socket_sendto d) = [d]"
| "datagram_of _ = []"

definition sent_datagrams :: "'d socket \<Rightarrow> 'd list" where
  "sent_datagrams s = concat (map datagram_of (sock_calls s))"

text \<open>
  What happens to the receiving side of a stream: the application pulls a frame or
  installs a hook, the receive path completes a frame. \<open>run_events\<close> gives the result of
  every \<open>pull_frame\<close> call, in order (\<open>None\<close>: the call blocks, and the stream stays as it
  is), and the stream at the end.
\<close>

datatype stream_event =
    Ev_pull_frame
  | Ev_frame rtp_frame
  | Ev_install_receive_hook void_ptr fn_ptr

definition frame_completed :: "rtp_frame \<Rightarrow> media_stream_op \<Rightarrow> media_stream_op" where
  "frame_completed f ms = ms\<lparr>receiver_' := return_frame f (receiver_' ms)\<rparr>"

fun run_events ::
  "stream_event list \<Rightarrow> media_stream_op \<Rightarrow> (rtp_frame option) option list \<times> media_stream_op" where
  "run_events [] ms = ([], ms)"
| "run_events (Ev_pull_frame # es) ms =
     (case pull_frame ms of
        None \<Rightarrow> (let rest = run_events es ms in (None # fst rest, snd rest))
      | Some r \<Rightarrow> (let rest = run_events es (snd r) in (Some (fst r) # fst rest, snd rest)))"
| "run_events (Ev_frame f # es) ms = run_events es (frame_completed f ms)"
| "run_events (Ev_install_receive_hook arg hook # es) ms =
     run_events es (snd (install_receive_hook arg hook ms))"

fun frames_of :: "stream_event list \<Rightarrow> rtp_frame list" where
  "frames_of [] = []"
| "frames_of (Ev_frame f # es) = f # frames_of es"
| "frames_of (_ # es) = frames_of es"

fun pulls_of :: "stream_event list \<Rightarrow> nat" where
  "pulls_of [] = 0"
| "pulls_of (Ev_pull_frame # es) = Suc (pulls_of es)"
| "pulls_of (_ # es) = pulls_of es"

definition hook_frames :: "media_stream_op \<Rightarrow> rtp_frame list" where
  "hook_frames ms = map (\<lambda>c. snd (snd c)) (hook_calls (receiver_' ms))"

text \<open>
  The invocations a run asks for when it starts with hook \<open>h\<close> and argument \<open>a\<close>
  installed: every completed frame goes, once, to the hook installed at that moment with
  the argument installed with it; an installation with a non-null hook replaces both, one
  with a null hook is refused. \<open>no_reinstall\<close>: the run holds no installation with a
  non-null hook.
\<close>

fun hook_calls_of :: "nat \<Rightarrow> void_ptr \<Rightarrow> stream_event list \<Rightarrow> (nat \<times> void_ptr \<times> rtp_frame) list" where
  "hook_calls_of h a [] = []"
| "hook_calls_of h a (Ev_pull_frame # es) = hook_calls_of h a es"
| "hook_calls_of h a (Ev_frame f # es) = (h, a, f) # hook_calls_of h a es"
| "hook_calls_of h a (Ev_install_receive_hook a' None # es) = hook_calls_of h a es"
| "hook_calls_of h a (Ev_install_receive_hook a' (Some h') # es) = hook_calls_of h' a' es"

fun no_reinstall :: "stream_event list \<Rightarrow> bool" where
  "no_reinstall [] = True"
| "no_reinstall (Ev_install_receive_hook a' (Some h') # es) = False"
| "no_reinstall (e # es) = no_reinstall es"

section \<open>RTCP\<close>


datatype rtcp_packet_type = RTCP_SR | RTCP_RR | RTCP_SDES | RTCP_BYE | RTCP_APP











section \<open>Auxiliary notions and sample states\<close>

text \<open>
  \<open>seq_run q n\<close> is the run of \<open>n\<close> consecutive 16-bit sequence numbers from \<open>q\<close>
  (\<open>q, q+1, ...\<close>, modulo \<open>2^16\<close>). \<open>continues q0 s0 q1 s1\<close>: the datagrams the socket
  \<open>s1\<close> was handed after \<open>s0\<close> carry the run that starts at \<open>q0\<close>, and \<open>q1\<close> is the
  number after it.
\<close>

definition seq_run :: "uint16_t \<Rightarrow> nat \<Rightarrow> uint16_t list" where
  "seq_run q n = map (\<lambda>i. q + of_nat i) [0..<n]"

definition continues :: "uint16_t \<Rightarrow> rtp_packet socket \<Rightarrow> uint16_t \<Rightarrow> rtp_packet socket \<Rightarrow> bool" where
  "continues q0 s0 q1 s1 =
     (\<exists>ds. sent_datagrams s1 = sent_datagrams s0 @ ds
          \<and> map pkt_seq ds = seq_run q0 (length ds)
          \<and> q1 = q0 + of_nat (length ds))"

text \<open>
  Stream A of the echo scenario (127.0.0.1, ports 7000 to 7002), after \<open>init()\<close>: a fresh
  socket whose calls all succeed, four context values, the fragmenting formatter with a
  ceiling of two octets, and a sequence number one below the wrap-around.
\<close>

definition stream_A :: media_stream_op where
  "stream_A =
     \<lparr>fmt_' = RTP_FORMAT_FRAGMENTING, addr_' = ''127.0.0.1'', flags_' = 0,
      src_port_' = 7000, dst_port_' = 7002,
      socket_' = \<lparr>sock_calls = [], sock_results = (\<lambda>k. RTP_OK)\<rparr>,
      addr_out_' = \<lparr>sin_family = 0, sin_addr = [], sin_port = 0\<rparr>,
      ctx_config_' = \<lparr>flags = 0, ctx_values = [0, 0, 0, 0]\<rparr>,
      media_config_' = None,
      rtp_' = \<lparr>rtp_ssrc = 7, rtp_seq = 65535, rtp_ts = 0, rtp_ts_inc = 3000, rtp_payload_type = 96\<rparr>,
      sender_' = \<lparr>mtu_payload = 1500, frag_ceiling = 2, dealloc_hook = None, dealloc_calls = []\<rparr>,
      receiver_' = \<lparr>recv_hook_arg = None, recv_hook = None, frames = [], max_frames = 8,
                    dropped_frames = 0, recv_active = True, hook_calls = []\<rparr>\<rparr>"


section \<open>configure_ctx\<close>

lemma uint_eq_sint_nonneg:
  fixes w :: "'a::len word"
  assumes "0 \<le> sint w"
  shows "uint w = sint w"
proof -
  have "sint w < 2 ^ (LENGTH('a) - 1)" by (rule sint_lt)
  also have "\<dots> \<le> (2::int) ^ LENGTH('a)" by (rule power_increasing) simp_all
  finally have "sint w < 2 ^ LENGTH('a)" .
  with assms have "take_bit LENGTH('a) (sint w) = sint w"
    by (simp add: take_bit_int_eq_self)
  then show ?thesis by (simp add: uint_sint)
qed

lemma in_range_index:
  fixes flag bound :: "'a::len word"
  assumes "\<not> flag <s 0" "\<not> bound <=s flag"
  shows "unat flag < unat bound"
proof -
  from assms have a: "0 \<le> sint flag" and b: "sint flag < sint bound"
    by (simp_all add: word_sless_alt word_sle_eq)
  then have "0 \<le> sint bound" by simp
  with a b have "uint flag < uint bound"
    by (simp add: uint_eq_sint_nonneg)
  then have "flag < bound"
    by (simp add: word_less_def)
  then show ?thesis
    by (simp add: word_less_nat_alt)
qed

text \<open>
  C3. With the array \<open>ctx_values\<close> of extent \<open>RCC_LAST\<close>: \<open>configure_ctx(flag, value)\<close>
  returns \<open>RTP_INVALID_VALUE\<close> when the flag is negative or not below \<open>RCC_LAST\<close> or
  the value is negative; otherwise it returns \<open>RTP_OK\<close>, entry \<open>flag\<close> of \<open>ctx_values\<close>
  holds the value and nothing else of the configuration has changed.
  \<open>configure_ctx(flag)\<close> returns \<open>RTP_INVALID_VALUE\<close> when the flag is negative or not
  below \<open>RCE_LAST\<close>; otherwise it returns \<open>RTP_OK\<close> and the flag word is the old one with
  the bits of the flag set.
\<close>

theorem configure_ctx_returns:
  assumes "length (ctx_values (ctx_config_' ms)) = unat RCC_LAST"
  shows "(flag <s 0 \<or> RCC_LAST <=s flag \<or> v <s 0
            \<longrightarrow> fst (configure_ctx RCC_LAST flag v ms) = RTP_INVALID_VALUE)
       \<and> (\<not> flag <s 0 \<and> \<not> RCC_LAST <=s flag \<and> \<not> v <s 0
            \<longrightarrow> fst (configure_ctx RCC_LAST flag v ms) = RTP_OK
              \<and> ctx_values (ctx_config_' (snd (configure_ctx RCC_LAST flag v ms))) ! unat flag = v
              \<and> (\<forall>i. i \<noteq> unat flag \<longrightarrow>
                    ctx_values (ctx_config_' (snd (configure_ctx RCC_LAST flag v ms))) ! i
                      = ctx_values (ctx_config_' ms) ! i)
              \<and> flags (ctx_config_' (snd (configure_ctx RCC_LAST flag v ms))) = flags (ctx_config_' ms))
       \<and> (f <s 0 \<or> RCE_LAST <=s f
            \<longrightarrow> fst (configure_ctx_flag RCE_LAST f ms) = RTP_INVALID_VALUE)
       \<and> (\<not> f <s 0 \<and> \<not> RCE_LAST <=s f
            \<longrightarrow> fst (configure_ctx_flag RCE_LAST f ms) = RTP_OK
              \<and> flags (ctx_config_' (snd (configure_ctx_flag RCE_LAST f ms))) = flags (ctx_config_' ms) OR f
              \<and> flags (ctx_config_' (snd (configure_ctx_flag RCE_LAST f ms))) AND f = f
              \<and> ctx_values (ctx_config_' (snd (configure_ctx_flag RCE_LAST f ms)))
                   = ctx_values (ctx_config_' ms))"
proof -
  have idx: "\<not> flag <s 0 \<Longrightarrow> \<not> RCC_LAST <=s flag \<Longrightarrow> unat flag < length (ctx_values (ctx_config_' ms))"
    using assms in_range_index [of flag RCC_LAST] by simp
  show ?thesis
    using idx by (simp add: configure_ctx_def configure_ctx_flag_def)
qed

lemma stream_A_config: "ctx_config_' stream_A = \<lparr>flags = 0, ctx_values = [0, 0, 0, 0]\<rparr>"
  by (simp add: stream_A_def)

text \<open>
  On stream A with \<open>RCC_LAST = 4\<close> and \<open>RCE_LAST = 16\<close>: parameter 2 takes the value
  128, flag 4 is set; parameter 4, the value -1 and the flag -3 are refused.
\<close>

theorem configure_ctx_returns_witness:
  "fst (configure_ctx 4 2 128 stream_A) = RTP_OK
   \<and> ctx_values (ctx_config_' (snd (configure_ctx 4 2 128 stream_A))) ! 2 = 128
   \<and> fst (configure_ctx_flag 16 4 stream_A) = RTP_OK
   \<and> flags (ctx_config_' (snd (configure_ctx_flag 16 4 stream_A))) = 4
   \<and> fst (configure_ctx 4 4 128 stream_A) = RTP_INVALID_VALUE
   \<and> fst (configure_ctx 4 2 (- 1) stream_A) = RTP_INVALID_VALUE
   \<and> fst (configure_ctx_flag 16 (- 3) stream_A) = RTP_INVALID_VALUE"
  using configure_ctx_returns [where ms = stream_A and RCC_LAST = 4 and flag = 2 and v = 128
      and f = 4 and RCE_LAST = 16]
    configure_ctx_returns [where ms = stream_A and RCC_LAST = 4 and flag = 4 and v = 128
      and f = "- 3" and RCE_LAST = 16]
    configure_ctx_returns [where ms = stream_A and RCC_LAST = 4 and flag = 2 and v = "- 1"
      and f = 4 and RCE_LAST = 16]
  by (simp add: stream_A_config word_sless_alt word_sle_eq)

text \<open>
  C10. Both overloads of \<open>configure_ctx\<close> are atomic on error: when a call returns
  \<open>RTP_INVALID_VALUE\<close>, the stream is the one before the call; in particular the flag
  word and every entry of \<open>ctx_values\<close> are unchanged.
\<close>

theorem configure_ctx_atomic:
  "(fst (configure_ctx RCC_LAST flag v ms) = RTP_INVALID_VALUE
      \<longrightarrow> snd (configure_ctx RCC_LAST flag v ms) = ms
        \<and> flags (ctx_config_' (snd (configure_ctx RCC_LAST flag v ms))) = flags (ctx_config_' ms)
        \<and> ctx_values (ctx_config_' (snd (configure_ctx RCC_LAST flag v ms))) = ctx_values (ctx_config_' ms))
   \<and> (fst (configure_ctx_flag RCE_LAST f ms) = RTP_INVALID_VALUE
      \<longrightarrow> snd (configure_ctx_flag RCE_LAST f ms) = ms
        \<and> flags (ctx_config_' (snd (configure_ctx_flag RCE_LAST f ms))) = flags (ctx_config_' ms)
        \<and> ctx_values (ctx_config_' (snd (configure_ctx_flag RCE_LAST f ms))) = ctx_values (ctx_config_' ms))"
  by (simp add: configure_ctx_def configure_ctx_flag_def)

lemma configure_ctx_rejects_sample:
  "fst (configure_ctx 4 7 5 stream_A) = RTP_INVALID_VALUE
   \<and> fst (configure_ctx_flag 16 16 stream_A) = RTP_INVALID_VALUE"
  by (simp add: configure_ctx_def configure_ctx_flag_def word_sless_alt word_sle_eq)

theorem configure_ctx_atomic_witness:
  "fst (configure_ctx 4 7 5 stream_A) = RTP_INVALID_VALUE
   \<and> snd (configure_ctx 4 7 5 stream_A) = stream_A
   \<and> fst (configure_ctx_flag 16 16 stream_A) = RTP_INVALID_VALUE
   \<and> snd (configure_ctx_flag 16 16 stream_A) = stream_A"
  using configure_ctx_atomic [where ms = stream_A and RCC_LAST = 4 and flag = 7 and v = 5
      and f = 16 and RCE_LAST = 16] configure_ctx_rejects_sample
  by simp

section \<open>Installing hooks\<close>

text \<open>
  C4. \<open>install_receive_hook\<close> and \<open>install_deallocation_hook\<close> return
  \<open>RTP_INVALID_VALUE\<close> if and only if the function pointer is null, and then leave the
  stream as it is; with a non-null pointer they return \<open>RTP_OK\<close> and the hook (with its
  argument, for the receive hook) is the one installed in the receiver, respectively the
  sender.
\<close>

theorem install_hook_returns:
  "((fst (install_receive_hook arg hook ms) = RTP_INVALID_VALUE) = (hook = None))
   \<and> (hook = None \<longrightarrow> snd (install_receive_hook arg hook ms) = ms)
   \<and> (hook \<noteq> None \<longrightarrow>
         fst (install_receive_hook arg hook ms) = RTP_OK
         \<and> recv_hook (receiver_' (snd (install_receive_hook arg hook ms))) = hook
         \<and> recv_hook_arg (receiver_' (snd (install_receive_hook arg hook ms))) = arg)
   \<and> ((fst (install_deallocation_hook hook ms) = RTP_INVALID_VALUE) = (hook = None))
   \<and> (hook = None \<longrightarrow> snd (install_deallocation_hook hook ms) = ms)
   \<and> (hook \<noteq> None \<longrightarrow>
         fst (install_deallocation_hook hook ms) = RTP_OK
         \<and> dealloc_hook (sender_' (snd (install_deallocation_hook hook ms))) = hook)"
  by (simp add: install_receive_hook_def install_deallocation_hook_def
      install_recv_hook_def install_dealloc_hook_def)

theorem install_hook_returns_witness:
  "fst (install_receive_hook (Some 1) (Some 4096) stream_A) = RTP_OK
   \<and> recv_hook (receiver_' (snd (install_receive_hook (Some 1) (Some 4096) stream_A))) = Some 4096
   \<and> fst (install_deallocation_hook (Some 4096) stream_A) = RTP_OK
   \<and> dealloc_hook (sender_' (snd (install_deallocation_hook (Some 4096) stream_A))) = Some 4096
   \<and> fst (install_receive_hook (Some 1) None stream_A) = RTP_INVALID_VALUE
   \<and> snd (install_receive_hook (Some 1) None stream_A) = stream_A
   \<and> fst (install_deallocation_hook None stream_A) = RTP_INVALID_VALUE
   \<and> snd (install_deallocation_hook None stream_A) = stream_A"
  using install_hook_returns [where ms = stream_A and arg = "Some 1" and hook = "Some 4096"]
    install_hook_returns [where ms = stream_A and arg = "Some 1" and hook = None]
  by simp

section \<open>init_connection\<close>

lemma init_connection_calls:
  "\<exists>new. sock_calls (socket_' (snd (init_connection ms))) = sock_calls (socket_' ms) @ new
      \<and> filter enables_reuseaddr new = []"
  by (simp add: init_connection_def Let_def socket_init_def socket_bind_def
      socket_set_sockaddr_def socket_call_def)

lemma init_connection_flags_irrelevant:
  "sock_calls (socket_' (snd (init_connection (ms\<lparr>flags_' := fl, ctx_config_' := c\<rparr>))))
       = sock_calls (socket_' (snd (init_connection ms)))"
  by (simp add: init_connection_def Let_def socket_init_def socket_bind_def
      socket_set_sockaddr_def socket_call_def)

text \<open>
  C9. Whatever the stream's flags and context configuration are, and whatever the socket
  calls return, no call that \<open>init_connection\<close> makes on the socket enables
  \<open>SO_REUSEADDR\<close>, before the bind or after it: the option is enabled after the call
  exactly if it was before, and the calls made do not depend on \<open>flags_\<close> or
  \<open>ctx_config_\<close>.
\<close>

theorem init_connection_no_reuseaddr:
  "(\<exists>new. sock_calls (socket_' (snd (init_connection ms))) = sock_calls (socket_' ms) @ new
      \<and> filter enables_reuseaddr new = []
      \<and> filter enables_reuseaddr (takeWhile (\<lambda>c. \<not> is_bind c) new) = [])
   \<and> reuseaddr_enabled (socket_' (snd (init_connection ms))) = reuseaddr_enabled (socket_' ms)
   \<and> sock_calls (socket_' (snd (init_connection (ms\<lparr>flags_' := fl, ctx_config_' := c\<rparr>))))
       = sock_calls (socket_' (snd (init_connection ms)))"
proof -
  obtain new where new: "sock_calls (socket_' (snd (init_connection ms))) = sock_calls (socket_' ms) @ new"
    "filter enables_reuseaddr new = []"
    using init_connection_calls by blast
  from new(2) have "\<forall>x \<in> set new. \<not> enables_reuseaddr x"
    by (simp add: filter_empty_conv)
  then have "\<forall>x \<in> set (takeWhile (\<lambda>c. \<not> is_bind c) new). \<not> enables_reuseaddr x"
    by (meson set_takeWhileD)
  then have tw: "filter enables_reuseaddr (takeWhile (\<lambda>c. \<not> is_bind c) new) = []"
    by (simp add: filter_empty_conv)
  have "reuseaddr_enabled (socket_' (snd (init_connection ms))) = reuseaddr_enabled (socket_' ms)"
    using new by (simp add: reuseaddr_enabled_def)
  with new tw init_connection_flags_irrelevant show ?thesis by blast
qed

lemma stream_A_socket: "socket_' stream_A = \<lparr>sock_calls = [], sock_results = (\<lambda>k. RTP_OK)\<rparr>"
  by (simp add: stream_A_def)

text \<open>
  On stream A, whose socket is fresh: \<open>init_connection\<close> succeeds and
  \<open>SO_REUSEADDR\<close> is off before and after it.
\<close>

theorem init_connection_no_reuseaddr_witness:
  "\<not> reuseaddr_enabled (socket_' stream_A)
   \<and> \<not> reuseaddr_enabled (socket_' (snd (init_connection stream_A)))
   \<and> fst (init_connection stream_A) = RTP_OK"
  using init_connection_no_reuseaddr [where ms = stream_A and fl = 0 and c = "ctx_config_' stream_A"]
  by (simp add: stream_A_socket reuseaddr_enabled_def init_connection_def Let_def socket_init_def
      socket_bind_def socket_call_def)

section \<open>Sequence numbers of the datagrams of push_frame\<close>

lemma seq_run_0: "seq_run q 0 = []"
  by (simp add: seq_run_def)

lemma seq_run_Suc: "seq_run q (Suc n) = q # seq_run (q + 1) n"
  by (simp add: seq_run_def map_upt_Suc ac_simps del: upt_Suc)

lemma seq_run_add: "seq_run q (n + m) = seq_run q n @ seq_run (q + of_nat n) m"
proof (induction n arbitrary: q)
  case 0
  show ?case by (simp add: seq_run_0)
next
  case (Suc n)
  have "seq_run q (Suc n + m) = q # seq_run (q + 1) (n + m)"
    by (simp add: seq_run_Suc)
  also have "\<dots> = q # (seq_run (q + 1) n @ seq_run (q + 1 + of_nat n) m)"
    by (simp add: Suc.IH)
  also have "\<dots> = seq_run q (Suc n) @ seq_run (q + of_nat (Suc n)) m"
    by (simp add: seq_run_Suc ac_simps)
  finally show ?case .
qed

lemma continues_refl: "continues q s q s"
  by (simp add: continues_def seq_run_0)

lemma continues_trans:
  assumes "continues q0 s0 q1 s1" "continues q1 s1 q2 s2"
  shows "continues q0 s0 q2 s2"
proof -
  from assms(1) obtain ds1 where 1: "sent_datagrams s1 = sent_datagrams s0 @ ds1"
    "map pkt_seq ds1 = seq_run q0 (length ds1)" "q1 = q0 + of_nat (length ds1)"
    by (auto simp: continues_def)
  from assms(2) obtain ds2 where 2: "sent_datagrams s2 = sent_datagrams s1 @ ds2"
    "map pkt_seq ds2 = seq_run q1 (length ds2)" "q2 = q1 + of_nat (length ds2)"
    by (auto simp: continues_def)
  have "sent_datagrams s2 = sent_datagrams s0 @ (ds1 @ ds2)"
    using 1 2 by simp
  moreover have "map pkt_seq (ds1 @ ds2) = seq_run q0 (length (ds1 @ ds2))"
    using 1 2 by (simp add: seq_run_add)
  moreover have "q2 = q0 + of_nat (length (ds1 @ ds2))"
    using 1 2 by (simp add: add.assoc)
  ultimately show ?thesis
    unfolding continues_def by blast
qed

lemma sent_datagrams_sendto:
  "sent_datagrams (snd (socket_sendto d s)) = sent_datagrams s @ [d]"
  by (simp add: socket_sendto_def socket_call_def sent_datagrams_def)

lemma continues_sendto:
  "continues (rtp_seq r) s (rtp_seq r + 1) (snd (socket_sendto (build_packet m ts r p) s))"
  unfolding continues_def
  by (rule exI [of _ "[build_packet m ts r p]"])
     (simp add: sent_datagrams_sendto seq_run_Suc seq_run_0 build_packet_def)

lemma send_datagrams_continues:
  "continues (rtp_seq r) s
     (rtp_seq (fst (snd (send_datagrams ps ts r s)))) (snd (snd (send_datagrams ps ts r s)))"
proof (induction ps arbitrary: r s)
  case Nil
  show ?case by (simp add: continues_refl)
next
  case (Cons p ps)
  let ?pkt = "build_packet (fst p) ts r (snd p)"
  let ?r' = "r\<lparr>rtp_seq := rtp_seq r + 1\<rparr>"
  let ?s' = "snd (socket_sendto ?pkt s)"
  have step: "continues (rtp_seq r) s (rtp_seq ?r') ?s'"
    using continues_sendto [of r s "fst p" ts "snd p"] by simp
  show ?case
  proof (cases "fst (socket_sendto ?pkt s) = RTP_OK")
    case True
    have "continues (rtp_seq ?r') ?s'
       (rtp_seq (fst (snd (send_datagrams ps ts ?r' ?s')))) (snd (snd (send_datagrams ps ts ?r' ?s')))"
      by (rule Cons.IH)
    with step have "continues (rtp_seq r) s
       (rtp_seq (fst (snd (send_datagrams ps ts ?r' ?s')))) (snd (snd (send_datagrams ps ts ?r' ?s')))"
      by (rule continues_trans)
    with True show ?thesis by (simp add: Let_def)
  next
    case False
    with step show ?thesis by (simp add: Let_def)
  qed
qed

lemma sender_push_frame_continues:
  "continues (rtp_seq r) s
     (rtp_seq (fst (snd (sender_push_frame fmt data n fl sndr r s))))
     (snd (snd (sender_push_frame fmt data n fl sndr r s)))"
  using send_datagrams_continues
  by (simp add: sender_push_frame_def continues_refl Let_def split: option.splits sum.splits)

lemma push_frame_continues:
  "continues (rtp_seq (rtp_' ms)) (socket_' ms)
     (rtp_seq (rtp_' (snd (push_frame d n fl ms)))) (socket_' (snd (push_frame d n fl ms)))"
  using sender_push_frame_continues [of "rtp_' ms" "socket_' ms" "fmt_' ms" d n fl "sender_' ms"]
  by (simp add: push_frame_def Let_def)

lemma push_frame_owned_continues:
  "continues (rtp_seq (rtp_' ms)) (socket_' ms)
     (rtp_seq (rtp_' (snd (push_frame_owned d n fl ms)))) (socket_' (snd (push_frame_owned d n fl ms)))"
  using sender_push_frame_continues [of "rtp_' ms" "socket_' ms" "fmt_' ms" d n fl "sender_' ms"]
  by (simp add: push_frame_owned_def Let_def)

lemma push_frames_continues:
  "continues (rtp_seq (rtp_' ms)) (socket_' ms)
     (rtp_seq (rtp_' (snd (push_frames cs ms)))) (socket_' (snd (push_frames cs ms)))"
proof (induction cs arbitrary: ms)
  case Nil
  show ?case by (simp add: continues_refl)
next
  case (Cons c cs)
  show ?case
  proof (cases c)
    case (Push d n fl)
    show ?thesis
      using continues_trans [OF push_frame_continues [of ms d n fl] Cons.IH [of "snd (push_frame d n fl ms)"]]
      by (simp add: Push Let_def)
  next
    case (Push_owned d n fl)
    show ?thesis
      using continues_trans [OF push_frame_owned_continues [of ms d n fl] Cons.IH [of "snd (push_frame_owned d n fl ms)"]]
      by (simp add: Push_owned Let_def)
  qed
qed

text \<open>
  C6. For any sequence of \<open>push_frame\<close> calls (of either overload, valid or refused,
  whatever the socket answers) on one stream, the datagrams handed to the socket by those
  calls carry the sequence numbers \<open>s, s+1, ..., s+M-1\<close> modulo \<open>2^16\<close>, where \<open>s\<close> is
  the session's sequence number before the first call and \<open>M\<close> the number of datagrams;
  the session's sequence number afterwards is \<open>s+M\<close>.
\<close>

theorem push_frames_sequence_numbers:
  "\<exists>ds. sent_datagrams (socket_' (snd (push_frames cs ms))) = sent_datagrams (socket_' ms) @ ds
       \<and> map pkt_seq ds = map (\<lambda>i. rtp_seq (rtp_' ms) + of_nat i) [0..<length ds]
       \<and> rtp_seq (rtp_' (snd (push_frames cs ms))) = rtp_seq (rtp_' ms) + of_nat (length ds)"
  using push_frames_continues [of ms cs]
  unfolding continues_def seq_run_def by blast

lemma stream_A_push:
  "fst (push_frames [Push (Some [1, 2, 3, 4, 5]) 5 0, Push None 3 0, Push_owned (Some [9]) 1 0] stream_A)
     = [RTP_OK, RTP_INVALID_VALUE, RTP_OK]
   \<and> map pkt_seq (sent_datagrams (socket_' (snd (push_frames
        [Push (Some [1, 2, 3, 4, 5]) 5 0, Push None 3 0, Push_owned (Some [9]) 1 0] stream_A))))
     = [65535, 0, 1, 2]"
  by code_simp

text \<open>
  On stream A (sequence number 65535, ceiling 2): a frame of five octets, a refused call
  and an owned frame of one octet give four datagrams, numbered 65535, 0, 1, 2; the
  sequence number is then 3.
\<close>

theorem push_frames_sequence_numbers_witness:
  "sent_datagrams (socket_' stream_A) = []
   \<and> map pkt_seq (sent_datagrams (socket_' (snd (push_frames
        [Push (Some [1, 2, 3, 4, 5]) 5 0, Push None 3 0, Push_owned (Some [9]) 1 0] stream_A))))
     = [65535, 0, 1, 2]
   \<and> rtp_seq (rtp_' (snd (push_frames
        [Push (Some [1, 2, 3, 4, 5]) 5 0, Push None 3 0, Push_owned (Some [9]) 1 0] stream_A))) = 3"
proof -
  let ?cs = "[Push (Some [1, 2, 3, 4, 5]) 5 0, Push None 3 0, Push_owned (Some [9]) 1 0]"
  have old: "sent_datagrams (socket_' stream_A) = []"
    by (simp add: stream_A_def sent_datagrams_def)
  have q: "rtp_seq (rtp_' stream_A) = 65535"
    by (simp add: stream_A_def)
  from push_frames_sequence_numbers [of ?cs stream_A] obtain ds where
    ds: "sent_datagrams (socket_' (snd (push_frames ?cs stream_A))) = sent_datagrams (socket_' stream_A) @ ds"
      "map pkt_seq ds = map (\<lambda>i. rtp_seq (rtp_' stream_A) + of_nat i) [0..<length ds]"
      "rtp_seq (rtp_' (snd (push_frames ?cs stream_A))) = rtp_seq (rtp_' stream_A) + of_nat (length ds)"
    by blast
  from stream_A_push ds(1) old have m: "map pkt_seq ds = [65535, 0, 1, 2]"
    by simp
  have "length ds = 4"
    using arg_cong [OF m, of length] by simp
  with ds(3) q have "rtp_seq (rtp_' (snd (push_frames ?cs stream_A))) = 3" by simp
  with old stream_A_push show ?thesis by simp
qed

section \<open>The receive hook and pull_frame\<close>

text \<open>
  Without a hook, a pull on the empty ring blocks and a completed frame is pulled.
\<close>

lemma pull_without_hook:
  "fst (run_events [Ev_pull_frame, Ev_frame \<lparr>frame_timestamp = 0, frame_payload = [1, 2]\<rparr>,
          Ev_pull_frame] stream_A)
     = [None, Some (Some \<lparr>frame_timestamp = 0, frame_payload = [1, 2]\<rparr>)]"
  by (simp add: stream_A_def pull_frame_def receiver_pull_frame_def frame_completed_def return_frame_def)

lemma pull_frame_hooked:
  "recv_hook (receiver_' ms) = Some h \<Longrightarrow> pull_frame ms = Some (None, ms)"
  by (simp add: pull_frame_def receiver_pull_frame_def)

lemma frame_completed_hooked:
  "recv_hook (receiver_' ms) = Some h \<Longrightarrow> recv_hook_arg (receiver_' ms) = a \<Longrightarrow>
     recv_hook (receiver_' (frame_completed f ms)) = Some h
     \<and> recv_hook_arg (receiver_' (frame_completed f ms)) = a
     \<and> hook_calls (receiver_' (frame_completed f ms)) = hook_calls (receiver_' ms) @ [(h, a, f)]"
  by (simp add: frame_completed_def return_frame_def)

lemma install_receive_hook_null:
  "snd (install_receive_hook a' None ms) = ms"
  by (simp add: install_receive_hook_def)

lemma install_receive_hook_some:
  "recv_hook (receiver_' (snd (install_receive_hook a' (Some h') ms))) = Some h'
   \<and> recv_hook_arg (receiver_' (snd (install_receive_hook a' (Some h') ms))) = a'
   \<and> hook_calls (receiver_' (snd (install_receive_hook a' (Some h') ms))) = hook_calls (receiver_' ms)
   \<and> fst (install_receive_hook a' (Some h') ms) = RTP_OK"
  by (simp add: install_receive_hook_def install_recv_hook_def)

lemma run_events_hooked:
  "recv_hook (receiver_' ms) = Some h \<Longrightarrow> recv_hook_arg (receiver_' ms) = a \<Longrightarrow>
     fst (run_events es ms) = replicate (pulls_of es) (Some None)
     \<and> hook_calls (receiver_' (snd (run_events es ms)))
          = hook_calls (receiver_' ms) @ hook_calls_of h a es"
proof (induction es arbitrary: ms h a)
  case Nil
  then show ?case by simp
next
  case (Cons e es)
  show ?case
  proof (cases e)
    case Ev_pull_frame
    with Cons.IH [OF Cons.prems] Cons.prems show ?thesis
      by (simp add: pull_frame_hooked Let_def)
  next
    case (Ev_frame f)
    from frame_completed_hooked [OF Cons.prems, of f]
    have h: "recv_hook (receiver_' (frame_completed f ms)) = Some h"
      and a: "recv_hook_arg (receiver_' (frame_completed f ms)) = a"
      and c: "hook_calls (receiver_' (frame_completed f ms)) = hook_calls (receiver_' ms) @ [(h, a, f)]"
      by simp_all
    from Cons.IH [OF h a] c Ev_frame show ?thesis by simp
  next
    case (Ev_install_receive_hook a' hook)
    show ?thesis
    proof (cases hook)
      case None
      with Cons.IH [OF Cons.prems] Ev_install_receive_hook show ?thesis
        by (simp add: install_receive_hook_null)
    next
      case (Some h')
      from install_receive_hook_some [of a' h' ms]
      have h: "recv_hook (receiver_' (snd (install_receive_hook a' (Some h') ms))) = Some h'"
        and a: "recv_hook_arg (receiver_' (snd (install_receive_hook a' (Some h') ms))) = a'"
        and c: "hook_calls (receiver_' (snd (install_receive_hook a' (Some h') ms))) = hook_calls (receiver_' ms)"
        by simp_all
      from Cons.IH [OF h a] c Some Ev_install_receive_hook show ?thesis by simp
    qed
  qed
qed

lemma hook_calls_of_frames:
  "map (\<lambda>c. snd (snd c)) (hook_calls_of h a es) = frames_of es"
proof (induction es arbitrary: h a)
  case Nil
  show ?case by simp
next
  case (Cons e es)
  show ?case
  proof (cases e)
    case (Ev_install_receive_hook a' hook)
    with Cons.IH show ?thesis by (cases hook) simp_all
  qed (simp_all add: Cons.IH)
qed

lemma hook_calls_of_no_reinstall:
  "no_reinstall es \<Longrightarrow> hook_calls_of h a es = map (\<lambda>f. (h, a, f)) (frames_of es)"
proof (induction es)
  case Nil
  show ?case by simp
next
  case (Cons e es)
  show ?case
  proof (cases e)
    case (Ev_install_receive_hook a' hook)
    with Cons show ?thesis by (cases hook) simp_all
  qed (use Cons in simp_all)
qed

text \<open>
  C8. After \<open>install_receive_hook\<close> has been called with a non-null hook \<open>h\<close> and
  argument \<open>arg\<close> (it returns \<open>RTP_OK\<close>), whatever happens afterwards on the stream
  (pulls, completed frames, further installations): every \<open>pull_frame\<close> call returns,
  and returns null; the invocations recorded since are exactly one per completed frame,
  in order, each of the hook installed at that moment with its argument; so the frames
  the hooks have received are the frames completed; and as long as no other hook is
  installed, every one of these invocations is of \<open>h\<close> with \<open>arg\<close>.
\<close>

theorem hook_then_pull_null:
  "fst (install_receive_hook arg (Some h) ms) = RTP_OK
   \<and> fst (run_events es (snd (install_receive_hook arg (Some h) ms)))
        = replicate (pulls_of es) (Some None)
   \<and> hook_calls (receiver_' (snd (run_events es (snd (install_receive_hook arg (Some h) ms)))))
        = hook_calls (receiver_' ms) @ hook_calls_of h arg es
   \<and> hook_frames (snd (run_events es (snd (install_receive_hook arg (Some h) ms))))
        = hook_frames ms @ frames_of es
   \<and> (no_reinstall es \<longrightarrow>
        hook_calls (receiver_' (snd (run_events es (snd (install_receive_hook arg (Some h) ms)))))
          = hook_calls (receiver_' ms) @ map (\<lambda>f. (h, arg, f)) (frames_of es))"
proof -
  let ?ms1 = "snd (install_receive_hook arg (Some h) ms)"
  from install_receive_hook_some [of arg h ms]
  have h: "recv_hook (receiver_' ?ms1) = Some h"
    and a: "recv_hook_arg (receiver_' ?ms1) = arg"
    and c: "hook_calls (receiver_' ?ms1) = hook_calls (receiver_' ms)"
    and ok: "fst (install_receive_hook arg (Some h) ms) = RTP_OK"
    by simp_all
  from run_events_hooked [OF h a, of es] c
  have pulls: "fst (run_events es ?ms1) = replicate (pulls_of es) (Some None)"
    and calls: "hook_calls (receiver_' (snd (run_events es ?ms1)))
                  = hook_calls (receiver_' ms) @ hook_calls_of h arg es"
    by simp_all
  from calls have fr: "hook_frames (snd (run_events es ?ms1)) = hook_frames ms @ frames_of es"
    by (simp add: hook_frames_def hook_calls_of_frames)
  from calls have "no_reinstall es \<longrightarrow>
      hook_calls (receiver_' (snd (run_events es ?ms1)))
        = hook_calls (receiver_' ms) @ map (\<lambda>f. (h, arg, f)) (frames_of es)"
    by (simp add: hook_calls_of_no_reinstall)
  with ok pulls calls fr show ?thesis by blast
qed

lemma stream_A_no_hook_calls: "hook_calls (receiver_' stream_A) = []"
  by (simp add: stream_A_def)

text \<open>
  On stream A with the hook 4096 and the argument 1 installed: three pulls around two
  completed frames and a refused installation all return null, and the hook 4096 has been
  invoked with the argument 1 on the two frames, in order.
\<close>

theorem hook_then_pull_null_witness:
  "no_reinstall
        [Ev_pull_frame, Ev_frame \<lparr>frame_timestamp = 0, frame_payload = [1, 2]\<rparr>, Ev_pull_frame,
         Ev_install_receive_hook None None, Ev_frame \<lparr>frame_timestamp = 3000, frame_payload = [3]\<rparr>,
         Ev_pull_frame]
   \<and> fst (run_events
        [Ev_pull_frame, Ev_frame \<lparr>frame_timestamp = 0, frame_payload = [1, 2]\<rparr>, Ev_pull_frame,
         Ev_install_receive_hook None None, Ev_frame \<lparr>frame_timestamp = 3000, frame_payload = [3]\<rparr>,
         Ev_pull_frame]
        (snd (install_receive_hook (Some 1) (Some 4096) stream_A)))
      = [Some None, Some None, Some None]
   \<and> hook_calls (receiver_' (snd (run_events
        [Ev_pull_frame, Ev_frame \<lparr>frame_timestamp = 0, frame_payload = [1, 2]\<rparr>, Ev_pull_frame,
         Ev_install_receive_hook None None, Ev_frame \<lparr>frame_timestamp = 3000, frame_payload = [3]\<rparr>,
         Ev_pull_frame]
        (snd (install_receive_hook (Some 1) (Some 4096) stream_A)))))
      = [(4096, Some 1, \<lparr>frame_timestamp = 0, frame_payload = [1, 2]\<rparr>),
         (4096, Some 1, \<lparr>frame_timestamp = 3000, frame_payload = [3]\<rparr>)]"
  using hook_then_pull_null [where h = 4096 and arg = "Some 1" and ms = stream_A
      and es = "[Ev_pull_frame, Ev_frame \<lparr>frame_timestamp = 0, frame_payload = [1, 2]\<rparr>, Ev_pull_frame,
         Ev_install_receive_hook None None, Ev_frame \<lparr>frame_timestamp = 3000, frame_payload = [3]\<rparr>,
         Ev_pull_frame]"]
  by (simp add: stream_A_no_hook_calls numeral_3_eq_3)

section \<open>The RTCP report at tn\<close>










end
